theory Spec2Isabelle
  imports Main
begin

section \<open>Values and containers used by \<open>flagser\<close>\<close>

text \<open>
  numpy dtype instances. The attribute \<open>flag_matrix.dtype\<close> always holds one of these
  objects, never a Python class.
\<close>

datatype dtype = Bool_dtype | Int_dtype | Float_dtype

text \<open>
  The two kinds of object that meet in the test \<open>flag_matrix.dtype is not bool\<close>: a dtype
  instance on the left and the builtin class \<open>bool\<close> on the right. Python's \<open>is\<close> is
  object identity.
\<close>

datatype pyobj = Dtype_instance dtype | Builtin_bool

definition py_is :: "pyobj \<Rightarrow> pyobj \<Rightarrow> bool" where
  "py_is a b = (a = b)"

text \<open>
  Exceptions that can leave \<open>flagser\<close>: the ones numpy raises on a bad index or on
  stacking rows of different lengths, and whatever the engine raises.
\<close>

datatype error = ValueError | IndexError | EngineError

definition bind_err :: "error + 'b \<Rightarrow> ('b \<Rightarrow> error + 'c) \<Rightarrow> error + 'c" where
  "bind_err x f = (case x of Inl e \<Rightarrow> Inl e | Inr v \<Rightarrow> f v)"

text \<open>\<open>max_dimension\<close> is documented as "int or np.inf".\<close>

datatype max_dim = Finite int | Infinity

text \<open>
  A two-dimensional \<open>np.ndarray\<close>: its shape, its cells in row-major order (what
  \<open>.flat\<close> iterates over) and its dtype.
\<close>

record 'a ndarray =
  nd_shape0 :: nat
  nd_shape1 :: nat
  nd_flat :: "'a list"
  nd_dtype :: dtype

text \<open>
  A \<open>scipy.sparse\<close> matrix, given by its shape and by the three parallel arrays
  \<open>row\<close>, \<open>col\<close>, \<open>data\<close> of its coordinate form, which is what \<open>tocoo()\<close> returns:
  one position per stored entry.
\<close>

record 'a spmatrix =
  sp_shape0 :: nat
  sp_shape1 :: nat
  coo_row :: "nat list"
  coo_col :: "nat list"
  coo_data :: "'a list"
  sp_dtype :: dtype

datatype 'a flag_matrix = NdArray "'a ndarray" | SpMatrix "'a spmatrix"

definition wf_ndarray :: "'a ndarray \<Rightarrow> bool" where
  "wf_ndarray a = (length (nd_flat a) = nd_shape0 a * nd_shape1 a)"

definition wf_spmatrix :: "'a spmatrix \<Rightarrow> bool" where
  "wf_spmatrix s =
     (length (coo_row s) = length (coo_data s) \<and> length (coo_col s) = length (coo_data s))"

fun wf_matrix :: "'a flag_matrix \<Rightarrow> bool" where
  "wf_matrix (NdArray a) = wf_ndarray a"
| "wf_matrix (SpMatrix s) = wf_spmatrix s"

fun shape :: "'a flag_matrix \<Rightarrow> nat \<times> nat" where
  "shape (NdArray a) = (nd_shape0 a, nd_shape1 a)"
| "shape (SpMatrix s) = (sp_shape0 s, sp_shape1 s)"

fun square_or_sparse :: "'a flag_matrix \<Rightarrow> bool" where
  "square_or_sparse (NdArray a) = (nd_shape0 a = nd_shape1 a)"
| "square_or_sparse (SpMatrix s) = True"

fun dtype_of :: "'a flag_matrix \<Rightarrow> dtype" where
  "dtype_of (NdArray a) = nd_dtype a"
| "dtype_of (SpMatrix s) = sp_dtype s"

section \<open>numpy and scipy primitives\<close>

text \<open>\<open>np.indices(shape)[0].flat\<close> and \<open>np.indices(shape)[1].flat\<close>.\<close>

definition np_indices_row :: "nat \<Rightarrow> nat \<Rightarrow> nat list" where
  "np_indices_row r c = concat (map (\<lambda>i. replicate c i) [0..<r])"

definition np_indices_col :: "nat \<Rightarrow> nat \<Rightarrow> nat list" where
  "np_indices_col r c = concat (replicate r [0..<c])"

text \<open>\<open>np.eye(m, dtype=bool).flat\<close>.\<close>

definition np_eye_flat :: "nat \<Rightarrow> bool list" where
  "np_eye_flat m = concat (map (\<lambda>i. map (\<lambda>j. i = j) [0..<m]) [0..<m])"

text \<open>\<open>ndarray.diagonal()\<close> of an \<open>r \<times> c\<close> array has \<open>min r c\<close> entries.\<close>

definition nd_diagonal :: "'a ndarray \<Rightarrow> 'a list" where
  "nd_diagonal a =
     map (\<lambda>i. nd_flat a ! (i * nd_shape1 a + i)) [0..<min (nd_shape0 a) (nd_shape1 a)]"

text \<open>
  \<open>spmatrix.diagonal()\<close>: a zero-filled vector of length \<open>min r c\<close> into which the stored
  diagonal entries are written; entries stored more than once at one position are added
  up first.
\<close>

definition sum_duplicates :: "'a::{zero,plus} list \<Rightarrow> 'a" where
  "sum_duplicates vs = (case vs of [] \<Rightarrow> 0 | v # ws \<Rightarrow> foldl (+) v ws)"

definition stored_at :: "'a spmatrix \<Rightarrow> nat \<Rightarrow> nat \<Rightarrow> 'a list" where
  "stored_at s i j =
     map snd (filter (\<lambda>((r, c), v). r = i \<and> c = j)
                (zip (zip (coo_row s) (coo_col s)) (coo_data s)))"

definition sp_diagonal :: "('a::{zero,plus}) spmatrix \<Rightarrow> 'a list" where
  "sp_diagonal s =
     map (\<lambda>i. sum_duplicates (stored_at s i i)) [0..<min (sp_shape0 s) (sp_shape1 s)]"

fun diagonal :: "('a::{zero,plus}) flag_matrix \<Rightarrow> 'a list" where
  "diagonal (NdArray a) = nd_diagonal a"
| "diagonal (SpMatrix s) = sp_diagonal s"

text \<open>
  Indexing with a boolean mask keeps the positions where the mask is true. An array
  wants a mask of its own length and raises IndexError otherwise. For a \<open>flatiter\<close>
  the answer depends on the numpy at hand, so it is a parameter of everything below:
  older releases accept a mask that is no longer than the iterator, read only the
  positions the mask covers, and raise ValueError for a longer one; numpy 2.4 raises
  IndexError for a mask of any other length than the iterator's. Where the two lengths
  agree, both index alike.
\<close>

datatype flatiter_indexing = Mask_may_be_shorter | Mask_of_same_length

datatype 'b seq1 = Flatiter "'b list" | Array1 "'b list"

definition mask_select :: "'b list \<Rightarrow> bool list \<Rightarrow> 'b list" where
  "mask_select xs msk = map fst (filter snd (zip xs msk))"

fun getitem_mask :: "flatiter_indexing \<Rightarrow> 'b seq1 \<Rightarrow> bool list \<Rightarrow> error + 'b list" where
  "getitem_mask Mask_may_be_shorter (Flatiter xs) msk =
     (if length xs < length msk then Inl ValueError else Inr (mask_select xs msk))"
| "getitem_mask Mask_of_same_length (Flatiter xs) msk =
     (if length xs \<noteq> length msk then Inl IndexError else Inr (mask_select xs msk))"
| "getitem_mask np (Array1 xs) msk =
     (if length xs \<noteq> length msk then Inl IndexError else Inr (mask_select xs msk))"

text \<open>
  \<open>np.vstack([...]).T\<close>: the rows must have one length; the transpose has one line per
  position.
\<close>

definition vstack3_T :: "nat list \<Rightarrow> nat list \<Rightarrow> 'a list \<Rightarrow> error + (nat \<times> nat \<times> 'a) list" where
  "vstack3_T r c d =
     (if length r = length c \<and> length c = length d then Inr (zip r (zip c d))
      else Inl ValueError)"

definition vstack2_T :: "nat list \<Rightarrow> nat list \<Rightarrow> error + (nat \<times> nat) list" where
  "vstack2_T r c = (if length r = length c then Inr (zip r c) else Inl ValueError)"

section \<open>The arguments \<open>flagser\<close> hands to the engine\<close>

datatype 'a edges = Triples "(nat \<times> nat \<times> 'a) list" | Pairs "(nat \<times> nat) list"

record 'a engine_args =
  arg_vertices :: "'a list"
  arg_edges :: "'a edges"
  arg_min_dimension :: int
  arg_max_dimension :: int
  arg_directed :: bool
  arg_coeff :: int
  arg_approximation :: int
  arg_filtration :: string

text \<open>The two \<open>print\<close> calls, each recorded with the value it formats.\<close>

datatype message = Unrecognized_filtration string | Available_algorithms "string list"

text \<open>
  The sparse mask: \<open>np.ones(row.shape[0])\<close>, then \<open>False\<close> written at every position
  of \<open>np.arange(row.shape[0])[row == column]\<close>.
\<close>

definition sparse_mask :: "flatiter_indexing \<Rightarrow> nat list \<Rightarrow> nat list \<Rightarrow> error + bool list" where
  "sparse_mask np row column =
     bind_err (getitem_mask np (Array1 [0..<length row]) (map (\<lambda>(r, c). r = c) (zip row column)))
       (\<lambda>idx. Inr (fold (\<lambda>i m. m[i := False]) idx (replicate (length row) True)))"

text \<open>Lines 95 to 106: the three columns and the off-diagonal mask.\<close>

fun edge_columns ::
  "flatiter_indexing \<Rightarrow> 'a flag_matrix \<Rightarrow> nat \<Rightarrow> error + (nat seq1 \<times> nat seq1 \<times> 'a seq1 \<times> bool list)" where
  "edge_columns np (NdArray a) n_vertices =
     Inr (Flatiter (np_indices_row (nd_shape0 a) (nd_shape1 a)),
          Flatiter (np_indices_col (nd_shape0 a) (nd_shape1 a)),
          Flatiter (nd_flat a),
          map Not (np_eye_flat n_vertices))"
| "edge_columns np (SpMatrix s) n_vertices =
     bind_err (sparse_mask np (coo_row s) (coo_col s))
       (\<lambda>msk. Inr (Array1 (coo_row s), Array1 (coo_col s), Array1 (coo_data s), msk))"

text \<open>Lines 108 to 114: the edge array, with or without the weight column.\<close>

definition build_edges ::
  "flatiter_indexing \<Rightarrow> dtype \<Rightarrow> nat seq1 \<Rightarrow> nat seq1 \<Rightarrow> 'a seq1 \<Rightarrow> bool list \<Rightarrow> error + 'a edges" where
  "build_edges np dt row column data mask_off_diag =
     (if \<not> py_is (Dtype_instance dt) Builtin_bool then
        bind_err (getitem_mask np row mask_off_diag) (\<lambda>r.
        bind_err (getitem_mask np column mask_off_diag) (\<lambda>c.
        bind_err (getitem_mask np data mask_off_diag) (\<lambda>d.
        bind_err (vstack3_T r c d) (\<lambda>e. Inr (Triples e)))))
      else
        bind_err (getitem_mask np row mask_off_diag) (\<lambda>r.
        bind_err (getitem_mask np column mask_off_diag) (\<lambda>c.
        bind_err (vstack2_T r c) (\<lambda>e. Inr (Pairs e)))))"

text \<open>Lines 90 to 114: vertex weights and edges.\<close>

definition extract_graph ::
  "flatiter_indexing \<Rightarrow> ('a::{zero,plus}) flag_matrix \<Rightarrow> error + ('a list \<times> 'a edges)" where
  "extract_graph np flag_matrix =
     (let vertices = diagonal flag_matrix in
      bind_err (edge_columns np flag_matrix (length vertices)) (\<lambda>(row, column, data, mask_off_diag).
      bind_err (build_edges np (dtype_of flag_matrix) row column data mask_off_diag) (\<lambda>edges.
      Inr (vertices, edges))))"

text \<open>
  Lines 90 to 124: everything up to the call of the engine. The result is what was
  printed, and either the exception raised or the arguments of \<open>compute_homology\<close>.
  \<open>implemented_filtrations\<close> is imported from the binding and is a parameter here.
\<close>

definition flagser_args ::
  "flatiter_indexing \<Rightarrow> string list \<Rightarrow> ('a::{zero,plus}) flag_matrix \<Rightarrow> int \<Rightarrow> max_dim \<Rightarrow> bool \<Rightarrow> string \<Rightarrow> int \<Rightarrow> int
     \<Rightarrow> message list \<times> (error + 'a engine_args)" where
  "flagser_args np implemented_filtrations flag_matrix min_dimension max_dimension directed
       filtration coeff approximation =
     (let approximation' = (if approximation = 0 then - 1 else approximation) in
      case extract_graph np flag_matrix of
        Inl e \<Rightarrow> ([], Inl e)
      | Inr (vertices, edges) \<Rightarrow>
          (let max_dimension' = (case max_dimension of Infinity \<Rightarrow> - 1 | Finite d \<Rightarrow> d);
               unknown = (filtration \<notin> set implemented_filtrations);
               printed = (if unknown
                          then [Unrecognized_filtration filtration,
                                Available_algorithms implemented_filtrations]
                          else []);
               filtration' = (if unknown then ''max'' else filtration)
           in (printed,
               Inr \<lparr>arg_vertices = vertices, arg_edges = edges,
                    arg_min_dimension = min_dimension, arg_max_dimension = max_dimension',
                    arg_directed = directed, arg_coeff = coeff,
                    arg_approximation = approximation', arg_filtration = filtration'\<rparr>)))"

text \<open>
  Lines 126 to 137. The engine is the imported \<open>compute_homology\<close>, a parameter here; it
  returns a list of homology objects, of which \<open>flagser\<close> reads the first.
\<close>

record ('d, 'n) homology =
  get_persistence_diagram :: "'d list"
  get_cell_count :: 'n
  get_betti_numbers :: 'n
  get_euler_characteristic :: 'n

record ('d, 'n) out =
  dgms :: "'d list"
  cell_count :: 'n
  betti :: 'n
  euler :: 'n

definition make_out :: "('d, 'n) homology list \<Rightarrow> error + ('d, 'n) out" where
  "make_out homology =
     (case homology of
        [] \<Rightarrow> Inl IndexError
      | h # _ \<Rightarrow>
          Inr \<lparr>dgms = map (\<lambda>i. get_persistence_diagram h ! i)
                        [0..<length (get_persistence_diagram h)],
               cell_count = get_cell_count h,
               betti = get_betti_numbers h,
               euler = get_euler_characteristic h\<rparr>)"

definition flagser ::
  "flatiter_indexing \<Rightarrow> (('a::{zero,plus}) engine_args \<Rightarrow> error + ('d, 'n) homology list)
     \<Rightarrow> string list
     \<Rightarrow> 'a flag_matrix \<Rightarrow> int \<Rightarrow> max_dim \<Rightarrow> bool \<Rightarrow> string \<Rightarrow> int \<Rightarrow> int
     \<Rightarrow> message list \<times> (error + ('d, 'n) out)" where
  "flagser np compute_homology implemented_filtrations flag_matrix min_dimension max_dimension
       directed filtration coeff approximation =
     (case flagser_args np implemented_filtrations flag_matrix min_dimension max_dimension
             directed filtration coeff approximation of
        (printed, Inl e) \<Rightarrow> (printed, Inl e)
      | (printed, Inr args) \<Rightarrow> (printed, bind_err (compute_homology args) make_out))"

section \<open>What the extraction computes\<close>

text \<open>
  Closed forms of the two edge lists, used to state and prove the properties below. For
  an array, position \<open>k\<close> of \<open>.flat\<close> is the cell in row \<open>k div c\<close> and column
  \<open>k mod c\<close>, and the mask built from \<open>np.eye\<close> has \<open>m * m\<close> positions, where \<open>m\<close>
  is the length of the diagonal.
\<close>

definition dense_edge_list :: "'a ndarray \<Rightarrow> (nat \<times> nat \<times> 'a) list" where
  "dense_edge_list a =
     (let m = min (nd_shape0 a) (nd_shape1 a) in
      map (\<lambda>k. (k div nd_shape1 a, k mod nd_shape1 a, nd_flat a ! k))
        (filter (\<lambda>k. k div m \<noteq> k mod m) [0..<m * m]))"

definition sparse_edge_list :: "'a spmatrix \<Rightarrow> (nat \<times> nat \<times> 'a) list" where
  "sparse_edge_list s =
     filter (\<lambda>(r, c, v). r \<noteq> c) (zip (coo_row s) (zip (coo_col s) (coo_data s)))"

text \<open>
  Example inputs. The cells of the boolean array are written 0 and 1, which is what
  \<open>np.vstack\<close> makes of them beside the integer indices.
\<close>

definition example_dense :: "int ndarray" where
  "example_dense =
     \<lparr>nd_shape0 = 2, nd_shape1 = 2, nd_flat = [7, 1, 0, 9], nd_dtype = Int_dtype\<rparr>"

definition example_sparse :: "int spmatrix" where
  "example_sparse =
     \<lparr>sp_shape0 = 2, sp_shape1 = 2, coo_row = [0, 0, 1], coo_col = [0, 1, 0],
      coo_data = [7, 1, 0], sp_dtype = Int_dtype\<rparr>"

definition example_bool :: "int ndarray" where
  "example_bool =
     \<lparr>nd_shape0 = 2, nd_shape1 = 2, nd_flat = [0, 1, 0, 0], nd_dtype = Bool_dtype\<rparr>"

definition example_dense_nonsquare :: "int ndarray" where
  "example_dense_nonsquare =
     \<lparr>nd_shape0 = 2, nd_shape1 = 3, nd_flat = [1, 2, 3, 4, 5, 6], nd_dtype = Int_dtype\<rparr>"

definition example_nonsquare :: "int spmatrix" where
  "example_nonsquare =
     \<lparr>sp_shape0 = 1, sp_shape1 = 2, coo_row = [0], coo_col = [1], coo_data = [5],
      sp_dtype = Int_dtype\<rparr>"

text \<open>An engine that raises, to run \<open>flagser\<close> as a whole on an example.\<close>

definition failing_engine :: "int engine_args \<Rightarrow> error + (unit, int) homology list" where
  "failing_engine args = Inl EngineError"

section \<open>\<open>flagser\<close> on a store of arrays\<close>

text \<open>
  The same function once more, with the arrays as objects in a store, so that what is
  an alias of the caller's matrix and what is a fresh array is explicit.
\<close>

text \<open>
  One array object: values of the matrix, indices, a boolean mask, or the stacked edge
  array.
\<close>

datatype 'a buffer =
    Val_array "'a list"
  | Idx_array "nat list"
  | Mask_array "bool list"
  | Edge_array "'a edges"

text \<open>
  The store holds every array object; an address is a position in it.
\<close>

type_synonym 'a store = "'a buffer list"

text \<open>
  A new array is put at the first address that is not in use.
\<close>

definition alloc :: "'a store \<Rightarrow> 'a buffer \<Rightarrow> nat \<times> 'a store" where
  "alloc h b = (length h, h @ [b])"

text \<open>
  Reading an array of a given kind at an address.
\<close>

definition get_vals :: "'a store \<Rightarrow> nat \<Rightarrow> 'a list" where
  "get_vals h p = (if p < length h then (case h ! p of Val_array xs \<Rightarrow> xs | _ \<Rightarrow> []) else [])"

definition get_nats :: "'a store \<Rightarrow> nat \<Rightarrow> nat list" where
  "get_nats h p = (if p < length h then (case h ! p of Idx_array xs \<Rightarrow> xs | _ \<Rightarrow> []) else [])"

definition get_bools :: "'a store \<Rightarrow> nat \<Rightarrow> bool list" where
  "get_bools h p = (if p < length h then (case h ! p of Mask_array xs \<Rightarrow> xs | _ \<Rightarrow> []) else [])"

definition get_edges :: "'a store \<Rightarrow> nat \<Rightarrow> 'a edges" where
  "get_edges h p =
     (if p < length h then (case h ! p of Edge_array e \<Rightarrow> e | _ \<Rightarrow> Triples []) else Triples [])"

text \<open>
  The caller's \<open>flag_matrix\<close> as an object: an \<open>ndarray\<close> with the address of its
  buffer, or a coordinate matrix with the addresses of its \<open>row\<close>, \<open>col\<close> and \<open>data\<close>
  arrays. \<open>deref\<close> reads the matrix it denotes in a store.
\<close>

datatype matrix_ref = NdRef nat nat nat dtype | SpRef nat nat nat nat nat dtype

fun deref :: "'a store \<Rightarrow> matrix_ref \<Rightarrow> 'a flag_matrix" where
  "deref h (NdRef r c p dt) =
     NdArray \<lparr>nd_shape0 = r, nd_shape1 = c, nd_flat = get_vals h p, nd_dtype = dt\<rparr>"
| "deref h (SpRef r c pr pc pd dt) =
     SpMatrix \<lparr>sp_shape0 = r, sp_shape1 = c, coo_row = get_nats h pr, coo_col = get_nats h pc,
               coo_data = get_vals h pd, sp_dtype = dt\<rparr>"

fun ref_addrs :: "matrix_ref \<Rightarrow> nat list" where
  "ref_addrs (NdRef r c p dt) = [p]"
| "ref_addrs (SpRef r c pr pc pd dt) = [pr, pc, pd]"

fun ref_dtype :: "matrix_ref \<Rightarrow> dtype" where
  "ref_dtype (NdRef r c p dt) = dt"
| "ref_dtype (SpRef r c pr pc pd dt) = dt"

definition ref_in_store :: "'a store \<Rightarrow> matrix_ref \<Rightarrow> bool" where
  "ref_in_store h m = list_all (\<lambda>p. p < length h) (ref_addrs m)"

text \<open>
  A column before indexing: a \<open>flatiter\<close> over the array at an address, or the array
  at an address itself. Neither is a copy.
\<close>

datatype seq_ref = Flatiter_of nat | Array_at nat

fun nats_of :: "'a store \<Rightarrow> seq_ref \<Rightarrow> nat seq1" where
  "nats_of h (Flatiter_of p) = Flatiter (get_nats h p)"
| "nats_of h (Array_at p) = Array1 (get_nats h p)"

fun vals_of :: "'a store \<Rightarrow> seq_ref \<Rightarrow> 'a seq1" where
  "vals_of h (Flatiter_of p) = Flatiter (get_vals h p)"
| "vals_of h (Array_at p) = Array1 (get_vals h p)"

text \<open>
  Lines 95 to 106 on the store. For an array, \<open>row\<close> and \<open>column\<close> are new arrays and
  \<open>data\<close> iterates over the caller's buffer. For a sparse matrix, \<open>row\<close>, \<open>column\<close>
  and \<open>data\<close> are the caller's own arrays (\<open>tocoo()\<close> of a coordinate matrix returns
  the matrix itself; any other format gets new arrays, which shares less), the mask is a
  new array of ones, and line 106 writes into that mask in place.
\<close>

fun edge_columns_store ::
  "flatiter_indexing \<Rightarrow> 'a store \<Rightarrow> matrix_ref \<Rightarrow> nat
     \<Rightarrow> 'a store \<times> (error + (seq_ref \<times> seq_ref \<times> seq_ref \<times> nat))" where
  "edge_columns_store np h (NdRef r c p dt) vertices =
     (let (row, h1) = alloc h (Idx_array (np_indices_row r c));
          (column, h2) = alloc h1 (Idx_array (np_indices_col r c));
          (mask_off_diag, h3) =
             alloc h2 (Mask_array (map Not (np_eye_flat (length (get_vals h2 vertices)))))
      in (h3, Inr (Flatiter_of row, Flatiter_of column, Flatiter_of p, mask_off_diag)))"
| "edge_columns_store np h (SpRef r c pr pc pd dt) vertices =
     (let (mask_off_diag, h1) = alloc h (Mask_array (replicate (length (get_nats h pr)) True))
      in case getitem_mask np (Array1 [0..<length (get_nats h1 pr)])
                (map (\<lambda>(r, c). r = c) (zip (get_nats h1 pr) (get_nats h1 pc))) of
           Inl e \<Rightarrow> (h1, Inl e)
         | Inr idx \<Rightarrow>
             (h1[mask_off_diag :=
                   Mask_array (fold (\<lambda>i m. m[i := False]) idx (get_bools h1 mask_off_diag))],
              Inr (Array_at pr, Array_at pc, Array_at pd, mask_off_diag)))"

text \<open>
  \<open>flagser\<close> on the store. \<open>vertices\<close> is the copy of the diagonal, at a new address;
  \<open>edges\<close> is the new array \<open>np.vstack\<close> returns. The engine is handed these two
  objects and may overwrite them: it returns their contents after the call beside its
  result.
\<close>

definition flagser_store ::
  "flatiter_indexing
     \<Rightarrow> (('a::{zero,plus}) engine_args \<Rightarrow> ('a list \<times> 'a edges) \<times> (error + ('d, 'n) homology list))
     \<Rightarrow> string list \<Rightarrow> 'a store \<Rightarrow> matrix_ref \<Rightarrow> int \<Rightarrow> max_dim \<Rightarrow> bool \<Rightarrow> string \<Rightarrow> int \<Rightarrow> int
     \<Rightarrow> 'a store \<times> message list \<times> (error + ('d, 'n) out)" where
  "flagser_store np compute_homology implemented_filtrations h flag_matrix min_dimension
       max_dimension directed filtration coeff approximation =
     (let (vertices, h1) = alloc h (Val_array (diagonal (deref h flag_matrix)));
          approximation' = (if approximation = 0 then - 1 else approximation)
      in case edge_columns_store np h1 flag_matrix vertices of
           (h2, Inl e) \<Rightarrow> (h2, [], Inl e)
         | (h2, Inr (row, column, data, mask_off_diag)) \<Rightarrow>
             (case build_edges np (ref_dtype flag_matrix) (nats_of h2 row) (nats_of h2 column)
                     (vals_of h2 data) (get_bools h2 mask_off_diag) of
                Inl e \<Rightarrow> (h2, [], Inl e)
              | Inr e \<Rightarrow>
                  (let (edges, h3) = alloc h2 (Edge_array e);
                       max_dimension' = (case max_dimension of Infinity \<Rightarrow> - 1 | Finite k \<Rightarrow> k);
                       unknown = (filtration \<notin> set implemented_filtrations);
                       printed = (if unknown
                                  then [Unrecognized_filtration filtration,
                                        Available_algorithms implemented_filtrations]
                                  else []);
                       filtration' = (if unknown then ''max'' else filtration);
                       ((vertices', edges'), homology) =
                          compute_homology
                            \<lparr>arg_vertices = get_vals h3 vertices, arg_edges = get_edges h3 edges,
                             arg_min_dimension = min_dimension,
                             arg_max_dimension = max_dimension',
                             arg_directed = directed, arg_coeff = coeff,
                             arg_approximation = approximation',
                             arg_filtration = filtration'\<rparr>;
                       h4 = h3[vertices := Val_array vertices', edges := Edge_array edges']
                   in (h4, printed, bind_err homology make_out))))"




definition example_store :: "int store" where
  "example_store = [Idx_array [0, 0, 1], Idx_array [0, 1, 0], Val_array [7, 1, 0]]"

definition example_ref :: matrix_ref where
  "example_ref = SpRef 2 2 0 1 2 Int_dtype"

definition overwriting_engine ::
  "int engine_args \<Rightarrow> (int list \<times> int edges) \<times> (error + (unit, int) homology list)" where
  "overwriting_engine args = ((map (\<lambda>x. 0) (arg_vertices args), Triples []), Inl EngineError)"

section \<open>Index arithmetic of the flattened arrays\<close>

lemma length_np_indices_row: "length (np_indices_row r c) = r * c"
  by (induction r) (simp_all add: np_indices_row_def)

lemma length_np_indices_col: "length (np_indices_col r c) = r * c"
  by (induction r) (simp_all add: np_indices_col_def)

lemma length_concat_rows:
  "(\<And>i. i < r \<Longrightarrow> length (f i) = c) \<Longrightarrow> length (concat (map f [0..<r])) = r * c"
  by (induction r) simp_all

lemma length_np_eye_flat: "length (np_eye_flat m) = m * m"
  by (simp add: np_eye_flat_def length_concat_rows)

lemma div_mod_last_row:
  fixes k :: nat
  assumes "r * c \<le> k" and "k < r * c + c"
  shows "k div c = r" and "k mod c = k - r * c"
proof -
  obtain j where k: "k = r * c + j" and j: "j < c"
    using assms by (metis add_diff_inverse_nat nat_add_left_cancel_less not_le)
  show "k div c = r" using k j by simp
  show "k mod c = k - r * c" using k j by simp
qed

lemma nth_concat_rows:
  assumes "\<And>i. i < r \<Longrightarrow> length (f i) = c" and "k < r * c"
  shows "concat (map f [0..<r]) ! k = f (k div c) ! (k mod c)"
  using assms
proof (induction r)
  case 0
  then show ?case by simp
next
  case (Suc r)
  have len: "length (concat (map f [0..<r])) = r * c"
    using Suc.prems(1) by (simp add: length_concat_rows)
  show ?case
  proof (cases "k < r * c")
    case True
    then show ?thesis using Suc len by (simp add: nth_append)
  next
    case False
    then have "r * c \<le> k" by simp
    moreover from Suc.prems(2) have "k < r * c + c" by simp
    ultimately have "k div c = r" "k mod c = k - r * c"
      by (rule div_mod_last_row)+
    then show ?thesis using False len by (simp add: nth_append)
  qed
qed

lemma np_indices_row_conv: "np_indices_row r c = map (\<lambda>k. k div c) [0..<r * c]"
proof (rule nth_equalityI)
  show "length (np_indices_row r c) = length (map (\<lambda>k. k div c) [0..<r * c])"
    by (simp add: length_np_indices_row)
next
  fix k assume "k < length (np_indices_row r c)"
  then have k: "k < r * c" by (simp add: length_np_indices_row)
  then have "k div c < r"
    by (simp add: less_mult_imp_div_less)
  moreover have "np_indices_row r c ! k = replicate c (k div c) ! (k mod c)"
    unfolding np_indices_row_def using k by (intro nth_concat_rows) simp_all
  moreover have "k mod c < c" using k by (cases c) simp_all
  ultimately show "np_indices_row r c ! k = map (\<lambda>k. k div c) [0..<r * c] ! k"
    using k by simp
qed

lemma np_indices_col_conv: "np_indices_col r c = map (\<lambda>k. k mod c) [0..<r * c]"
proof (rule nth_equalityI)
  show "length (np_indices_col r c) = length (map (\<lambda>k. k mod c) [0..<r * c])"
    by (simp add: length_np_indices_col)
next
  fix k assume "k < length (np_indices_col r c)"
  then have k: "k < r * c" by (simp add: length_np_indices_col)
  have rep: "replicate r [0..<c] = map (\<lambda>i. [0..<c]) [0..<r]"
    by (simp add: map_replicate_const)
  have "np_indices_col r c ! k = [0..<c] ! (k mod c)"
    unfolding np_indices_col_def rep using k by (intro nth_concat_rows) simp_all
  moreover have "k mod c < c" using k by (cases c) simp_all
  ultimately show "np_indices_col r c ! k = map (\<lambda>k. k mod c) [0..<r * c] ! k"
    using k by simp
qed

lemma np_eye_flat_conv: "np_eye_flat m = map (\<lambda>k. k div m = k mod m) [0..<m * m]"
proof (rule nth_equalityI)
  show "length (np_eye_flat m) = length (map (\<lambda>k. k div m = k mod m) [0..<m * m])"
    by (simp add: length_np_eye_flat)
next
  fix k assume "k < length (np_eye_flat m)"
  then have k: "k < m * m" by (simp add: length_np_eye_flat)
  then have d: "k div m < m" by (simp add: less_mult_imp_div_less)
  have md: "k mod m < m" using k by (cases m) simp_all
  have "np_eye_flat m ! k = map (\<lambda>j. k div m = j) [0..<m] ! (k mod m)"
    unfolding np_eye_flat_def using k by (intro nth_concat_rows) simp_all
  then show "np_eye_flat m ! k = map (\<lambda>k. k div m = k mod m) [0..<m * m] ! k"
    using k md by simp
qed

lemma zip_conv_nth:
  "zip xs ys = map (\<lambda>k. (xs ! k, ys ! k)) [0..<min (length xs) (length ys)]"
  by (rule nth_equalityI) simp_all

lemma mask_select_conv:
  "mask_select xs msk =
     map (\<lambda>k. xs ! k) (filter (\<lambda>k. msk ! k) [0..<min (length xs) (length msk)])"
  unfolding mask_select_def
  by (subst zip_conv_nth) (simp add: filter_map comp_def)

lemma fold_clear_conv:
  "fold (\<lambda>i m. m[i := False]) idx m = map (\<lambda>k. m ! k \<and> k \<notin> set idx) [0..<length m]"
proof (induction idx arbitrary: m)
  case Nil
  then show ?case by (simp add: map_nth)
next
  case (Cons i idx)
  have "fold (\<lambda>i m. m[i := False]) (i # idx) m
          = map (\<lambda>k. m[i := False] ! k \<and> k \<notin> set idx) [0..<length m]"
    using Cons.IH [of "m[i := False]"] by simp
  also have "\<dots> = map (\<lambda>k. m ! k \<and> k \<notin> set (i # idx)) [0..<length m]"
  proof (rule map_cong [OF refl])
    fix k assume "k \<in> set [0..<length m]"
    then have "k < length m" by simp
    then show "(m[i := False] ! k \<and> k \<notin> set idx) = (m ! k \<and> k \<notin> set (i # idx))"
      by (cases "k = i") simp_all
  qed
  finally show ?case .
qed

lemma getitem_mask_flatiter:
  assumes "length msk = length xs \<or> (np = Mask_may_be_shorter \<and> length msk \<le> length xs)"
  shows "getitem_mask np (Flatiter xs) msk = Inr (mask_select xs msk)"
  using assms by (cases np) auto

lemma getitem_mask_array:
  assumes "length msk = length xs"
  shows "getitem_mask np (Array1 xs) msk = Inr (mask_select xs msk)"
  using assms by simp

lemma sparse_mask_conv:
  assumes "length column = length row"
  shows "sparse_mask np row column = Inr (map (\<lambda>k. row ! k \<noteq> column ! k) [0..<length row])"
proof -
  let ?n = "length row"
  let ?eq = "map (\<lambda>(r, c). r = c) (zip row column)"
  have len: "length ?eq = ?n" using assms by simp
  have sel: "mask_select [0..<?n] ?eq = filter (\<lambda>k. row ! k = column ! k) [0..<?n]"
  proof -
    have "mask_select [0..<?n] ?eq = map (\<lambda>k. [0..<?n] ! k) (filter (\<lambda>k. ?eq ! k) [0..<?n])"
      using assms by (simp add: mask_select_conv)
    also have "\<dots> = map (\<lambda>k. k) (filter (\<lambda>k. ?eq ! k) [0..<?n])"
      by (rule map_cong) auto
    also have "filter (\<lambda>k. ?eq ! k) [0..<?n] = filter (\<lambda>k. row ! k = column ! k) [0..<?n]"
      by (rule filter_cong) (use assms in auto)
    finally show ?thesis by simp
  qed
  have "fold (\<lambda>i m. m[i := False]) (filter (\<lambda>k. row ! k = column ! k) [0..<?n])
          (replicate ?n True) = map (\<lambda>k. row ! k \<noteq> column ! k) [0..<?n]"
    unfolding fold_clear_conv by (rule nth_equalityI) simp_all
  then show ?thesis
    by (simp add: sparse_mask_def bind_err_def len sel del: length_map length_zip)
qed

lemma mask_select_upt:
  assumes "length msk = n" and "n \<le> length xs"
  shows "mask_select xs msk = map (\<lambda>k. xs ! k) (filter (\<lambda>k. msk ! k) [0..<n])"
  using assms by (simp add: mask_select_conv min_absorb2)

lemma mask_select_map_upt:
  assumes "n \<le> N"
  shows "mask_select (map f [0..<N]) (map p [0..<n]) = map f (filter p [0..<n])"
proof -
  have "mask_select (map f [0..<N]) (map p [0..<n])
          = map (\<lambda>k. map f [0..<N] ! k) (filter (\<lambda>k. map p [0..<n] ! k) [0..<n])"
    using assms by (intro mask_select_upt) simp_all
  also have "filter (\<lambda>k. map p [0..<n] ! k) [0..<n] = filter p [0..<n]"
    by (rule filter_cong) simp_all
  also have "map (\<lambda>k. map f [0..<N] ! k) (filter p [0..<n]) = map f (filter p [0..<n])"
    by (rule map_cong) (use assms in auto)
  finally show ?thesis .
qed

lemma min_square_le: "min r c * min r c \<le> r * (c::nat)"
  by (intro mult_le_mono) simp_all

lemma extract_graph_dense:
  assumes "wf_ndarray a" and "nd_shape0 a = nd_shape1 a \<or> np = Mask_may_be_shorter"
  shows "extract_graph np (NdArray a) = Inr (nd_diagonal a, Triples (dense_edge_list a))"
proof -
  let ?r = "nd_shape0 a" and ?c = "nd_shape1 a"
  let ?m = "min ?r ?c"
  let ?p = "\<lambda>k. k div ?m \<noteq> k mod ?m"
  let ?ks = "filter ?p [0..<?m * ?m]"
  have le: "?m * ?m \<le> ?r * ?c" by (rule min_square_le)
  have flat: "nd_flat a = map (\<lambda>k. nd_flat a ! k) [0..<?r * ?c]"
    using assms(1) map_nth [of "nd_flat a"] by (simp add: wf_ndarray_def)
  have msk: "map Not (np_eye_flat ?m) = map ?p [0..<?m * ?m]"
    by (simp add: np_eye_flat_conv)
  have r: "mask_select (np_indices_row ?r ?c) (map Not (np_eye_flat ?m)) = map (\<lambda>k. k div ?c) ?ks"
    unfolding msk np_indices_row_conv using le by (rule mask_select_map_upt)
  have c: "mask_select (np_indices_col ?r ?c) (map Not (np_eye_flat ?m)) = map (\<lambda>k. k mod ?c) ?ks"
    unfolding msk np_indices_col_conv using le by (rule mask_select_map_upt)
  have d: "mask_select (nd_flat a) (map Not (np_eye_flat ?m)) = map (\<lambda>k. nd_flat a ! k) ?ks"
    unfolding msk by (subst flat) (rule mask_select_map_upt [OF le])
  have z: "zip (map (\<lambda>k. k div ?c) ?ks) (zip (map (\<lambda>k. k mod ?c) ?ks) (map (\<lambda>k. nd_flat a ! k) ?ks))
             = dense_edge_list a"
    by (simp add: dense_edge_list_def Let_def zip_map_map zip_same_conv_map)
  have fits: "?m * ?m = ?r * ?c \<or> (np = Mask_may_be_shorter \<and> ?m * ?m \<le> ?r * ?c)"
    using assms(2) le by auto
  have g1: "getitem_mask np (Flatiter (np_indices_row ?r ?c)) (map Not (np_eye_flat ?m))
              = Inr (map (\<lambda>k. k div ?c) ?ks)"
    unfolding r [symmetric] using fits
    by (intro getitem_mask_flatiter) (simp add: length_np_indices_row length_np_eye_flat)
  have g2: "getitem_mask np (Flatiter (np_indices_col ?r ?c)) (map Not (np_eye_flat ?m))
              = Inr (map (\<lambda>k. k mod ?c) ?ks)"
    unfolding c [symmetric] using fits
    by (intro getitem_mask_flatiter) (simp add: length_np_indices_col length_np_eye_flat)
  have g3: "getitem_mask np (Flatiter (nd_flat a)) (map Not (np_eye_flat ?m))
              = Inr (map (\<lambda>k. nd_flat a ! k) ?ks)"
    unfolding d [symmetric] using fits assms(1)
    by (intro getitem_mask_flatiter) (simp add: wf_ndarray_def length_np_eye_flat)
  have v: "vstack3_T (map (\<lambda>k. k div ?c) ?ks) (map (\<lambda>k. k mod ?c) ?ks)
             (map (\<lambda>k. nd_flat a ! k) ?ks) = Inr (dense_edge_list a)"
    by (simp add: vstack3_T_def z)
  have b: "build_edges np (nd_dtype a) (Flatiter (np_indices_row ?r ?c))
             (Flatiter (np_indices_col ?r ?c)) (Flatiter (nd_flat a)) (map Not (np_eye_flat ?m))
           = Inr (Triples (dense_edge_list a))"
    unfolding build_edges_def g1 g2 g3 by (simp add: py_is_def bind_err_def v)
  have dl: "length (nd_diagonal a) = ?m" by (simp add: nd_diagonal_def)
  show ?thesis
    unfolding extract_graph_def Let_def diagonal.simps dl edge_columns.simps
    by (simp add: bind_err_def b)
qed

lemma extract_graph_sparse:
  assumes "wf_spmatrix s"
  shows "extract_graph np (SpMatrix s) = Inr (sp_diagonal s, Triples (sparse_edge_list s))"
proof -
  let ?row = "coo_row s" and ?col = "coo_col s" and ?dat = "coo_data s"
  let ?n = "length ?row"
  let ?p = "\<lambda>k. ?row ! k \<noteq> ?col ! k"
  let ?msk = "map ?p [0..<?n]"
  let ?ks = "filter ?p [0..<?n]"
  have lc: "length ?col = ?n" and ld: "length ?dat = ?n"
    using assms by (simp_all add: wf_spmatrix_def)
  have m: "sparse_mask np ?row ?col = Inr ?msk"
    using lc by (rule sparse_mask_conv)
  have sel: "mask_select xs ?msk = map (\<lambda>k. xs ! k) ?ks" if "length xs = ?n" for xs :: "'b list"
  proof -
    have "mask_select (map (\<lambda>k. xs ! k) [0..<?n]) ?msk = map (\<lambda>k. xs ! k) ?ks"
      by (rule mask_select_map_upt) simp
    moreover have "map (\<lambda>k. xs ! k) [0..<?n] = xs"
      using map_nth [of xs] that by simp
    ultimately show ?thesis by simp
  qed
  have g1: "getitem_mask np (Array1 ?row) ?msk = Inr (map (\<lambda>k. ?row ! k) ?ks)"
    by (simp add: sel)
  have g2: "getitem_mask np (Array1 ?col) ?msk = Inr (map (\<lambda>k. ?col ! k) ?ks)"
    using lc by (simp add: sel)
  have g3: "getitem_mask np (Array1 ?dat) ?msk = Inr (map (\<lambda>k. ?dat ! k) ?ks)"
    using ld by (simp add: sel)
  have all: "zip ?row (zip ?col ?dat) = map (\<lambda>k. (?row ! k, ?col ! k, ?dat ! k)) [0..<?n]"
    using lc ld by (intro nth_equalityI) simp_all
  have z: "zip (map (\<lambda>k. ?row ! k) ?ks) (zip (map (\<lambda>k. ?col ! k) ?ks) (map (\<lambda>k. ?dat ! k) ?ks))
             = sparse_edge_list s"
    unfolding sparse_edge_list_def all
    by (simp add: zip_map_map zip_same_conv_map filter_map comp_def)
  have v: "vstack3_T (map (\<lambda>k. ?row ! k) ?ks) (map (\<lambda>k. ?col ! k) ?ks)
             (map (\<lambda>k. ?dat ! k) ?ks) = Inr (sparse_edge_list s)"
    by (simp add: vstack3_T_def z)
  have b: "build_edges np (sp_dtype s) (Array1 ?row) (Array1 ?col) (Array1 ?dat) ?msk
             = Inr (Triples (sparse_edge_list s))"
    unfolding build_edges_def g1 g2 g3 by (simp add: py_is_def bind_err_def v)
  show ?thesis
    unfolding extract_graph_def Let_def diagonal.simps edge_columns.simps m
    by (simp add: bind_err_def b)
qed

section \<open>Arguments of the engine call\<close>

lemma flagser_args_of_graph:
  assumes "extract_graph np M = Inr (v, e)"
  shows "flagser_args np impl M mn mx d f c ap =
           (if f \<notin> set impl then [Unrecognized_filtration f, Available_algorithms impl] else [],
            Inr \<lparr>arg_vertices = v, arg_edges = e, arg_min_dimension = mn,
                 arg_max_dimension = (case mx of Infinity \<Rightarrow> - 1 | Finite k \<Rightarrow> k),
                 arg_directed = d, arg_coeff = c,
                 arg_approximation = (if ap = 0 then - 1 else ap),
                 arg_filtration = (if f \<notin> set impl then ''max'' else f)\<rparr>)"
  using assms by (simp add: flagser_args_def Let_def)

lemma extract_graph_total:
  assumes "wf_matrix M" and "square_or_sparse M \<or> np = Mask_may_be_shorter"
  shows "\<exists>v e. extract_graph np M = Inr (v, e)"
  using assms by (cases M) (simp_all add: extract_graph_dense extract_graph_sparse)

lemma diag_positions:
  "card {k. k < n * n \<and> k div n = k mod n} = n"
proof -
  have "{k. k < n * n \<and> k div n = k mod n} = (\<lambda>i. i * n + i) ` {..<n}"
  proof (intro set_eqI iffI)
    fix k assume "k \<in> {k. k < n * n \<and> k div n = k mod n}"
    then have k: "k < n * n" and e: "k div n = k mod n" by simp_all
    from k have "0 < n" by (cases n) simp_all
    then have "k mod n < n" by simp
    moreover have "k = (k mod n) * n + k mod n"
      using div_mult_mod_eq [of k n] e by simp
    ultimately show "k \<in> (\<lambda>i. i * n + i) ` {..<n}" by blast
  next
    fix k assume "k \<in> (\<lambda>i. i * n + i) ` {..<n}"
    then obtain i where i: "i < n" and k: "k = i * n + i" by blast
    have "i * n + i < n * n"
    proof -
      have "i * n + i < i * n + n" using i by simp
      also have "\<dots> = Suc i * n" by simp
      also have "\<dots> \<le> n * n" using i by (metis Suc_leI mult_le_mono1)
      finally show ?thesis .
    qed
    then show "k \<in> {k. k < n * n \<and> k div n = k mod n}"
      using i k by simp
  qed
  moreover have "inj_on (\<lambda>i. i * n + i) {..<n}"
  proof (rule inj_onI)
    fix x y assume "x * n + x = y * n + y"
    then have "x * Suc n = y * Suc n" by simp
    then show "x = y" by (simp only: mult_cancel2) simp
  qed
  ultimately show ?thesis by (simp add: card_image)
qed

lemma length_off_diag_positions:
  "length (filter (\<lambda>k. k div n \<noteq> k mod n) [0..<n * n]) = n * (n - 1)"
proof -
  have "length (filter (\<lambda>k. k div n = k mod n) [0..<n * n]) = n"
  proof -
    have "{x. x div n = x mod n} \<inter> set [0..<n * n] = {k. k < n * n \<and> k div n = k mod n}"
      by auto
    then show ?thesis
      using diag_positions [of n] by (simp add: distinct_length_filter)
  qed
  moreover have "length (filter (\<lambda>k. k div n = k mod n) [0..<n * n])
        + length (filter (\<lambda>k. k div n \<noteq> k mod n) [0..<n * n]) = n * n"
    using sum_length_filter_compl [of "\<lambda>k. k div n = k mod n" "[0..<n * n]"] by simp
  ultimately have "length (filter (\<lambda>k. k div n \<noteq> k mod n) [0..<n * n]) = n * n - n"
    by simp
  then show ?thesis by (simp add: diff_mult_distrib2)
qed

lemma length_dense_edge_list:
  assumes "nd_shape0 a = n" and "nd_shape1 a = n"
  shows "length (dense_edge_list a) = n * (n - 1)"
  using assms by (simp add: dense_edge_list_def length_off_diag_positions)

lemma set_dense_edge_list:
  assumes "nd_shape0 a = n" and "nd_shape1 a = n"
  shows "set (dense_edge_list a) =
           {(i, j, nd_flat a ! (i * n + j)) | i j. i < n \<and> j < n \<and> i \<noteq> j}"
proof (intro set_eqI iffI)
  fix e assume "e \<in> set (dense_edge_list a)"
  then obtain k where k: "k < n * n" and nd: "k div n \<noteq> k mod n"
      and e: "e = (k div n, k mod n, nd_flat a ! k)"
    using assms by (auto simp: dense_edge_list_def)
  from k have "0 < n" by (cases n) simp_all
  then have "k mod n < n" by simp
  moreover have "k div n < n" using k by (simp add: less_mult_imp_div_less)
  moreover have "k div n * n + k mod n = k" by simp
  ultimately show "e \<in> {(i, j, nd_flat a ! (i * n + j)) | i j. i < n \<and> j < n \<and> i \<noteq> j}"
    using nd e by force
next
  fix e assume "e \<in> {(i, j, nd_flat a ! (i * n + j)) | i j. i < n \<and> j < n \<and> i \<noteq> j}"
  then obtain i j where i: "i < n" and j: "j < n" and ij: "i \<noteq> j"
      and e: "e = (i, j, nd_flat a ! (i * n + j))" by blast
  let ?k = "i * n + j"
  have "?k < i * n + n" using j by simp
  also have "\<dots> = Suc i * n" by simp
  also have "\<dots> \<le> n * n" using i by (metis Suc_leI mult_le_mono1)
  finally have k: "?k < n * n" .
  have "?k div n = i" "?k mod n = j" using j by simp_all
  then have "e = (?k div n, ?k mod n, nd_flat a ! ?k)" "?k div n \<noteq> ?k mod n"
    using e ij by simp_all
  then show "e \<in> set (dense_edge_list a)"
    using assms k unfolding dense_edge_list_def Let_def
    by (metis (mono_tags, lifting) atLeast0LessThan image_eqI lessThan_iff mem_Collect_eq
          min.idem set_filter set_map set_upt)
qed

lemma no_self_loop_dense:
  assumes "nd_shape0 a = n" and "nd_shape1 a = n"
  shows "\<forall>(i, j, w) \<in> set (dense_edge_list a). i \<noteq> j"
  using set_dense_edge_list [OF assms] by auto

lemma sum_duplicates_simps:
  "sum_duplicates [] = 0" "sum_duplicates [v] = v"
  by (simp_all add: sum_duplicates_def)

lemma no_self_loop_sparse: "\<forall>(i, j, w) \<in> set (sparse_edge_list s). i \<noteq> j"
  by (auto simp: sparse_edge_list_def)

section \<open>Dense against sparse\<close>









section \<open>The store\<close>

lemma edge_columns_store_frame:
  assumes "edge_columns_store np h m v = (h', res)"
  shows "length h \<le> length h' \<and> take (length h) h' = h"
  using assms
  by (cases m) (auto simp: alloc_def Let_def split: sum.splits prod.splits if_splits)

lemma flagser_store_frame:
  assumes "flagser_store np compute_homology impl h m mn mx d f c ap = (h', printed, res)"
  shows "take (length h) h' = h"
proof -
  obtain h2 r2 where ec: "edge_columns_store np (h @ [Val_array (diagonal (deref h m))]) m (length h) = (h2, r2)"
    by (cases "edge_columns_store np (h @ [Val_array (diagonal (deref h m))]) m (length h)")
  from edge_columns_store_frame [OF ec]
  have l2: "Suc (length h) \<le> length h2"
    and t2: "take (Suc (length h)) h2 = h @ [Val_array (diagonal (deref h m))]"
    by simp_all
  have t: "take (length h) h2 = h"
    using t2 by (metis append_eq_conv_conj butlast_snoc butlast_take diff_Suc_1 l2 length_append_singleton take_all_iff)
  show ?thesis
    using assms ec t l2
    by (auto simp: flagser_store_def alloc_def Let_def split: sum.splits prod.splits)
qed

lemma get_append_old:
  assumes "p < length h"
  shows "get_vals (h @ hs) p = get_vals h p" and "get_nats (h @ hs) p = get_nats h p"
    and "get_bools (h @ hs) p = get_bools h p"
  using assms by (simp_all add: get_vals_def get_nats_def get_bools_def nth_append)

lemma frame_reads:
  assumes "take (length h) h' = h" and "p < length h"
  shows "get_vals h' p = get_vals h p" and "get_nats h' p = get_nats h p"
proof -
  have len: "length h \<le> length h'"
    using arg_cong [OF assms(1), of length] by simp
  have "h' ! p = h ! p"
    using assms by (metis nth_take)
  then show "get_vals h' p = get_vals h p" and "get_nats h' p = get_nats h p"
    using assms(2) len by (simp_all add: get_vals_def get_nats_def)
qed

lemma frame_deref:
  assumes "take (length h) h' = h" and "ref_in_store h m"
  shows "deref h' m = deref h m"
  using assms by (cases m) (simp_all add: ref_in_store_def frame_reads)

lemma get_fresh:
  "get_vals (h @ [Val_array xs]) (length h) = xs"
  "get_nats (h @ [Idx_array ns]) (length h) = ns"
  "get_bools (h @ [Mask_array bs]) (length h) = bs"
  "get_edges (h @ [Edge_array e]) (length h) = e"
  by (simp_all add: get_vals_def get_nats_def get_bools_def get_edges_def)

lemma get_snoc_old:
  assumes "p < length h"
  shows "get_vals (h @ [b]) p = get_vals h p" and "get_nats (h @ [b]) p = get_nats h p"
    and "get_bools (h @ [b]) p = get_bools h p"
  using assms by (rule get_append_old)+

lemma edge_columns_store_pure:
  assumes "ref_in_store h m"
    and "edge_columns_store np (h @ [Val_array (diagonal (deref h m))]) m (length h) = (h2, r2)"
  shows "edge_columns np (deref h m) (length (diagonal (deref h m)))
           = (case r2 of
                Inl e \<Rightarrow> Inl e
              | Inr (row, column, data, msk) \<Rightarrow>
                  Inr (nats_of h2 row, nats_of h2 column, vals_of h2 data, get_bools h2 msk))"
proof (cases m)
  case (NdRef r c p dt)
  then have p: "p < length h" using assms(1) by (simp add: ref_in_store_def)
  let ?h1 = "h @ [Val_array (diagonal (deref h m))]"
  let ?h2 = "?h1 @ [Idx_array (np_indices_row r c)]"
  let ?h3 = "?h2 @ [Idx_array (np_indices_col r c)]"
  have v: "get_vals ?h3 (length h) = diagonal (deref h m)"
    using get_fresh(1) [of h] by (simp add: get_vals_def nth_append)
  have res: "h2 = ?h3 @ [Mask_array (map Not (np_eye_flat (length (diagonal (deref h m)))))]"
       "r2 = Inr (Flatiter_of (Suc (length h)), Flatiter_of (Suc (Suc (length h))), Flatiter_of p,
                  Suc (Suc (Suc (length h))))"
    using assms(2) NdRef v by (simp_all add: alloc_def Let_def)
  have "get_nats h2 (Suc (length h)) = np_indices_row r c"
    unfolding res(1) by (simp add: get_nats_def nth_append)
  moreover have "get_nats h2 (Suc (Suc (length h))) = np_indices_col r c"
    unfolding res(1) by (simp add: get_nats_def nth_append)
  moreover have "get_vals h2 p = get_vals h p"
    unfolding res(1) using p by (simp add: get_vals_def nth_append)
  moreover have "get_bools h2 (Suc (Suc (Suc (length h))))
                   = map Not (np_eye_flat (length (diagonal (deref h m))))"
    unfolding res(1) by (simp add: get_bools_def nth_append)
  ultimately show ?thesis
    using NdRef by (simp add: res(2))
next
  case (SpRef r c pr pc pd dt)
  then have p: "pr < length h" "pc < length h" "pd < length h"
    using assms(1) by (simp_all add: ref_in_store_def)
  let ?v = "Val_array (diagonal (deref h m))"
  let ?row = "get_nats h pr" and ?col = "get_nats h pc"
  let ?ones = "replicate (length ?row) True"
  let ?sel = "getitem_mask np (Array1 [0..<length ?row]) (map (\<lambda>(r, c). r = c) (zip ?row ?col))"
  have ecs: "edge_columns_store np (h @ [?v]) m (length h)
          = (case ?sel of
               Inl e \<Rightarrow> (h @ [?v, Mask_array ?ones], Inl e)
             | Inr idx \<Rightarrow>
                (h @ [?v, Mask_array (fold (\<lambda>i m. m[i := False]) idx ?ones)],
                 Inr (Array_at pr, Array_at pc, Array_at pd, Suc (length h))))"
    using p unfolding SpRef
    by (simp add: alloc_def Let_def get_append_old get_bools_def nth_append
          list_update_append split: sum.splits del: getitem_mask.simps)
  show ?thesis
  proof (cases ?sel)
    case (Inl e)
    then have "r2 = Inl e" using assms(2) ecs by simp
    then show ?thesis
      using Inl unfolding SpRef
      by (simp add: sparse_mask_def bind_err_def del: getitem_mask.simps)
  next
    case (Inr idx)
    let ?m = "fold (\<lambda>i m. m[i := False]) idx ?ones"
    have res: "h2 = h @ [?v, Mask_array ?m]"
         "r2 = Inr (Array_at pr, Array_at pc, Array_at pd, Suc (length h))"
      using assms(2) ecs Inr by simp_all
    have "get_nats h2 pr = ?row" "get_nats h2 pc = ?col" "get_vals h2 pd = get_vals h pd"
      unfolding res(1) using p by (simp_all add: get_append_old)
    moreover have "get_bools h2 (Suc (length h)) = ?m"
      unfolding res(1) by (simp add: get_bools_def nth_append)
    ultimately show ?thesis
      using Inr unfolding SpRef
      by (simp add: res(2) sparse_mask_def bind_err_def del: getitem_mask.simps)
  qed
qed

lemma edge_columns_store_keeps_vertices:
  assumes "edge_columns_store np (h @ [Val_array xs]) m (length h) = (h2, r2)"
  shows "get_vals h2 (length h) = xs" and "Suc (length h) \<le> length h2"
proof -
  from edge_columns_store_frame [OF assms]
  have l: "Suc (length h) \<le> length h2" and t: "take (Suc (length h)) h2 = h @ [Val_array xs]"
    by simp_all
  have "h2 ! length h = (h @ [Val_array xs]) ! length h"
    using t by (metis lessI nth_take)
  then show "get_vals h2 (length h) = xs" using l by (simp add: get_vals_def)
  show "Suc (length h) \<le> length h2" by (rule l)
qed

lemma flagser_store_result:
  assumes "ref_in_store h m"
  shows "snd (flagser_store np eng impl h m mn mx d f c ap)
           = flagser np (\<lambda>args. snd (eng args)) impl (deref h m) mn mx d f c ap"
proof -
  let ?h1 = "h @ [Val_array (diagonal (deref h m))]"
  obtain h2 r2 where ec: "edge_columns_store np ?h1 m (length h) = (h2, r2)"
    by (cases "edge_columns_store np ?h1 m (length h)")
  note pure = edge_columns_store_pure [OF assms ec]
  note keep = edge_columns_store_keeps_vertices [OF ec]
  have dt: "ref_dtype m = dtype_of (deref h m)" by (cases m) simp_all
  show ?thesis
  proof (cases r2)
    case (Inl e)
    then show ?thesis
      using ec pure
      by (simp add: flagser_store_def flagser_def flagser_args_def extract_graph_def alloc_def
            Let_def bind_err_def)
  next
    case (Inr cols)
    obtain row column data msk where cols: "cols = (row, column, data, msk)"
      by (cases cols) auto
    show ?thesis
    proof (cases "build_edges np (ref_dtype m) (nats_of h2 row) (nats_of h2 column)
                    (vals_of h2 data) (get_bools h2 msk)")
      case (Inl e)
      then show ?thesis
        using ec pure Inr cols dt
        by (simp add: flagser_store_def flagser_def flagser_args_def extract_graph_def alloc_def
              Let_def bind_err_def)
    next
      case be: (Inr e)
      have gv: "get_vals (h2 @ [Edge_array e]) (length h) = diagonal (deref h m)"
        using keep by (simp add: get_vals_def nth_append)
      have ge: "get_edges (h2 @ [Edge_array e]) (length h2) = e"
        by (rule get_fresh)
      show ?thesis
        using ec pure Inr cols dt be gv ge
        by (simp add: flagser_store_def flagser_def flagser_args_def extract_graph_def alloc_def
              Let_def bind_err_def split: prod.splits)
    qed
  qed
qed

text \<open>
  An array that is not square is where the two ways of indexing a \<open>flatiter\<close> part:
  the mask has \<open>min r c * min r c\<close> positions and the iterators \<open>r * c\<close>. One numpy
  raises IndexError at line 109; the other reads the first positions only, against a
  mask laid out for a square, and goes on.
\<close>

lemma dense_nonsquare_depends_on_numpy:
  "flagser_args Mask_of_same_length [''max''] (NdArray example_dense_nonsquare) 0 Infinity True
     ''max'' 2 (- 1) = ([], Inl IndexError)"
  "map_sum id arg_edges
     (snd (flagser_args Mask_may_be_shorter [''max''] (NdArray example_dense_nonsquare) 0 Infinity
             True ''max'' 2 (- 1)))
     = Inr (Triples [(0, 1, 2), (0, 2, 3)])"
  by code_simp+

section \<open>Properties\<close>

text \<open>
  C1. For a square dense array of side \<open>n\<close> the edge list handed to the engine holds
  every off-diagonal cell with its value, zero or not, and so has \<open>n * (n - 1)\<close>
  entries. For a sparse matrix it holds exactly the stored entries off the diagonal,
  stored zeros included; a position that is not stored gives no edge.
\<close>

theorem edges_dense_every_cell_sparse_stored_only:
  "(wf_ndarray a \<and> nd_shape0 a = n \<and> nd_shape1 a = n \<longrightarrow>
      (\<exists>args es. snd (flagser_args np impl (NdArray a) mn mx d f c ap) = Inr args
         \<and> arg_edges args = Triples es
         \<and> set es = {(i, j, nd_flat a ! (i * n + j)) | i j. i < n \<and> j < n \<and> i \<noteq> j}
         \<and> length es = n * (n - 1)))
   \<and> (wf_spmatrix s \<longrightarrow>
      (\<exists>args. snd (flagser_args np impl (SpMatrix s) mn mx d f c ap) = Inr args
         \<and> arg_edges args =
             Triples (filter (\<lambda>(i, j, w). i \<noteq> j)
                        (zip (coo_row s) (zip (coo_col s) (coo_data s))))))"
proof (intro conjI impI)
  assume h: "wf_ndarray a \<and> nd_shape0 a = n \<and> nd_shape1 a = n"
  then have g: "extract_graph np (NdArray a) = Inr (nd_diagonal a, Triples (dense_edge_list a))"
    by (simp add: extract_graph_dense)
  show "\<exists>args es. snd (flagser_args np impl (NdArray a) mn mx d f c ap) = Inr args
         \<and> arg_edges args = Triples es
         \<and> set es = {(i, j, nd_flat a ! (i * n + j)) | i j. i < n \<and> j < n \<and> i \<noteq> j}
         \<and> length es = n * (n - 1)"
    using h set_dense_edge_list [of a n] length_dense_edge_list [of a n]
    by (simp add: flagser_args_of_graph [OF g])
next
  assume "wf_spmatrix s"
  then have g: "extract_graph np (SpMatrix s) = Inr (sp_diagonal s, Triples (sparse_edge_list s))"
    by (rule extract_graph_sparse)
  show "\<exists>args. snd (flagser_args np impl (SpMatrix s) mn mx d f c ap) = Inr args
         \<and> arg_edges args =
             Triples (filter (\<lambda>(i, j, w). i \<noteq> j)
                        (zip (coo_row s) (zip (coo_col s) (coo_data s))))"
    by (simp add: flagser_args_of_graph [OF g] sparse_edge_list_def)
qed

theorem edges_dense_every_cell_sparse_stored_only_witness:
  "wf_ndarray example_dense \<and> nd_shape0 example_dense = 2 \<and> nd_shape1 example_dense = 2
   \<and> wf_spmatrix example_sparse
   \<and> (\<exists>args es. snd (flagser_args Mask_of_same_length [''max''] (NdArray example_dense)
           0 Infinity True ''max'' 2 (- 1)) = Inr args
         \<and> arg_edges args = Triples es
         \<and> set es = {(i, j, nd_flat example_dense ! (i * 2 + j)) | i j. i < 2 \<and> j < 2 \<and> i \<noteq> j}
         \<and> length es = 2 * (2 - 1))
   \<and> (\<exists>args. snd (flagser_args Mask_of_same_length [''max''] (SpMatrix example_sparse)
           0 Infinity True ''max'' 2 (- 1)) = Inr args
         \<and> arg_edges args =
             Triples (filter (\<lambda>(i, j, w). i \<noteq> j)
                        (zip (coo_row example_sparse)
                           (zip (coo_col example_sparse) (coo_data example_sparse)))))"
proof -
  have h: "wf_ndarray example_dense \<and> nd_shape0 example_dense = 2
             \<and> nd_shape1 example_dense = 2"
    and hs: "wf_spmatrix example_sparse"
    by (simp_all add: example_dense_def example_sparse_def wf_ndarray_def wf_spmatrix_def)
  from edges_dense_every_cell_sparse_stored_only
         [of example_dense 2 Mask_of_same_length "[''max'']" 0 Infinity True "''max''" 2 "- 1"
             example_sparse] h hs
  show ?thesis by blast
qed

text \<open>
  C2. For a square matrix, dense or sparse, no edge handed to the engine has its source
  equal to its target. The diagonal goes to the vertex weights only: \<open>n\<close> entries, the
  diagonal cells of an array, and for a sparse matrix the stored diagonal entry, or zero
  where the diagonal position is not stored.
\<close>

theorem diagonal_only_in_vertex_weights:
  "(wf_ndarray a \<and> nd_shape0 a = n \<and> nd_shape1 a = n \<longrightarrow>
      (\<exists>args es. snd (flagser_args np impl (NdArray a) mn mx d f c ap) = Inr args
         \<and> arg_edges args = Triples es
         \<and> (\<forall>(i, j, w) \<in> set es. i \<noteq> j)
         \<and> arg_vertices args = map (\<lambda>i. nd_flat a ! (i * n + i)) [0..<n]))
   \<and> (wf_spmatrix s \<and> sp_shape0 s = n \<and> sp_shape1 s = n \<longrightarrow>
      (\<exists>args es. snd (flagser_args np impl (SpMatrix s) mn mx d f c ap) = Inr args
         \<and> arg_edges args = Triples es
         \<and> (\<forall>(i, j, w) \<in> set es. i \<noteq> j)
         \<and> length (arg_vertices args) = n
         \<and> (\<forall>i<n. arg_vertices args ! i = sum_duplicates (stored_at s i i)
                \<and> (stored_at s i i = [] \<longrightarrow> arg_vertices args ! i = 0)
                \<and> (\<forall>v. stored_at s i i = [v] \<longrightarrow> arg_vertices args ! i = v))))"
proof (intro conjI impI)
  assume h: "wf_ndarray a \<and> nd_shape0 a = n \<and> nd_shape1 a = n"
  then have g: "extract_graph np (NdArray a) = Inr (nd_diagonal a, Triples (dense_edge_list a))"
    by (simp add: extract_graph_dense)
  have "nd_diagonal a = map (\<lambda>i. nd_flat a ! (i * n + i)) [0..<n]"
    using h by (simp add: nd_diagonal_def)
  then show "\<exists>args es. snd (flagser_args np impl (NdArray a) mn mx d f c ap) = Inr args
         \<and> arg_edges args = Triples es
         \<and> (\<forall>(i, j, w) \<in> set es. i \<noteq> j)
         \<and> arg_vertices args = map (\<lambda>i. nd_flat a ! (i * n + i)) [0..<n]"
    using h no_self_loop_dense [of a n]
    by (simp add: flagser_args_of_graph [OF g])
next
  assume h: "wf_spmatrix s \<and> sp_shape0 s = n \<and> sp_shape1 s = n"
  then have g: "extract_graph np (SpMatrix s) = Inr (sp_diagonal s, Triples (sparse_edge_list s))"
    by (simp add: extract_graph_sparse)
  have len: "length (sp_diagonal s) = n" using h by (simp add: sp_diagonal_def)
  have nth: "sp_diagonal s ! i = sum_duplicates (stored_at s i i)" if "i < n" for i
    using h that by (simp add: sp_diagonal_def)
  have "\<forall>i<n. sp_diagonal s ! i = sum_duplicates (stored_at s i i)
                \<and> (stored_at s i i = [] \<longrightarrow> sp_diagonal s ! i = 0)
                \<and> (\<forall>v. stored_at s i i = [v] \<longrightarrow> sp_diagonal s ! i = v)"
    by (simp add: nth sum_duplicates_simps)
  then show "\<exists>args es. snd (flagser_args np impl (SpMatrix s) mn mx d f c ap) = Inr args
         \<and> arg_edges args = Triples es
         \<and> (\<forall>(i, j, w) \<in> set es. i \<noteq> j)
         \<and> length (arg_vertices args) = n
         \<and> (\<forall>i<n. arg_vertices args ! i = sum_duplicates (stored_at s i i)
                \<and> (stored_at s i i = [] \<longrightarrow> arg_vertices args ! i = 0)
                \<and> (\<forall>v. stored_at s i i = [v] \<longrightarrow> arg_vertices args ! i = v))"
    using no_self_loop_sparse [of s] len
    by (simp add: flagser_args_of_graph [OF g] sum_duplicates_simps)
qed

theorem diagonal_only_in_vertex_weights_witness:
  "wf_ndarray example_dense \<and> nd_shape0 example_dense = 2 \<and> nd_shape1 example_dense = 2
   \<and> wf_spmatrix example_sparse \<and> sp_shape0 example_sparse = 2 \<and> sp_shape1 example_sparse = 2
   \<and> (\<exists>args es. snd (flagser_args Mask_of_same_length [''max''] (NdArray example_dense)
           0 Infinity True ''max'' 2 (- 1))
                   = Inr args
         \<and> arg_edges args = Triples es
         \<and> (\<forall>(i, j, w) \<in> set es. i \<noteq> j)
         \<and> arg_vertices args = map (\<lambda>i. nd_flat example_dense ! (i * 2 + i)) [0..<2])
   \<and> (\<exists>args es. snd (flagser_args Mask_of_same_length [''max''] (SpMatrix example_sparse)
           0 Infinity True ''max'' 2 (- 1))
                   = Inr args
         \<and> arg_edges args = Triples es
         \<and> (\<forall>(i, j, w) \<in> set es. i \<noteq> j)
         \<and> length (arg_vertices args) = 2
         \<and> (\<forall>i<2. arg_vertices args ! i = sum_duplicates (stored_at example_sparse i i)
                \<and> (stored_at example_sparse i i = [] \<longrightarrow> arg_vertices args ! i = 0)
                \<and> (\<forall>v. stored_at example_sparse i i = [v] \<longrightarrow> arg_vertices args ! i = v)))"
proof -
  have h: "wf_ndarray example_dense \<and> nd_shape0 example_dense = 2 \<and> nd_shape1 example_dense = 2"
    and hs: "wf_spmatrix example_sparse \<and> sp_shape0 example_sparse = 2 \<and> sp_shape1 example_sparse = 2"
    by (simp_all add: example_dense_def example_sparse_def wf_ndarray_def wf_spmatrix_def)
  from diagonal_only_in_vertex_weights
         [of example_dense 2 Mask_of_same_length "[''max'']" 0 Infinity True "''max''" 2 "- 1"
             example_sparse] h hs
  show ?thesis by blast
qed

text \<open>
  C3. The claim that a boolean matrix gives an edge list of pairs fails on the code. The
  test \<open>flag_matrix.dtype is not bool\<close> compares a dtype instance with the class
  \<open>bool\<close> by identity and is always true, so the branch that drops the weight column is
  never taken: a boolean array still gives triples.
\<close>

theorem bool_dtype_edges_keep_weight_column:
  "flagser_args Mask_of_same_length [''max''] (NdArray example_bool) 0 Infinity True ''max'' 2 (- 1)
     = ([], Inr \<lparr>arg_vertices = [0, 0], arg_edges = Triples [(0, 1, 1), (1, 0, 0)],
                  arg_min_dimension = 0, arg_max_dimension = - 1, arg_directed = True,
                  arg_coeff = 2, arg_approximation = - 1, arg_filtration = ''max''\<rparr>)
   \<and> flagser_args Mask_may_be_shorter [''max''] (NdArray example_bool)
           0 Infinity True ''max'' 2 (- 1)
     = ([], Inr \<lparr>arg_vertices = [0, 0], arg_edges = Triples [(0, 1, 1), (1, 0, 0)],
                  arg_min_dimension = 0, arg_max_dimension = - 1, arg_directed = True,
                  arg_coeff = 2, arg_approximation = - 1, arg_filtration = ''max''\<rparr>)"
  by code_simp

text \<open>
  C4. A filtration name that is not implemented raises nothing. \<open>flagser\<close> prints the
  two warning lines and calls the engine with the filtration \<open>max\<close> and every other
  argument as for a call that asks for \<open>max\<close>, so both calls return the same result.
\<close>

theorem unrecognized_filtration_falls_back_to_max:
  assumes "wf_matrix M" and "square_or_sparse M \<or> np = Mask_may_be_shorter"
    and "filtration \<notin> set implemented_filtrations"
  shows "\<exists>args. flagser_args np implemented_filtrations M mn mx d filtration c ap
                  = ([Unrecognized_filtration filtration,
                      Available_algorithms implemented_filtrations], Inr args)
           \<and> arg_filtration args = ''max''
           \<and> snd (flagser_args np implemented_filtrations M mn mx d ''max'' c ap) = Inr args
           \<and> snd (flagser np compute_homology implemented_filtrations M mn mx d filtration c ap)
               = snd (flagser np compute_homology implemented_filtrations M mn mx d ''max'' c ap)
           \<and> snd (flagser np compute_homology implemented_filtrations M mn mx d filtration c ap)
               = bind_err (compute_homology args) make_out"
proof -
  obtain v e where g: "extract_graph np M = Inr (v, e)"
    using extract_graph_total [OF assms(1,2)] by blast
  show ?thesis
    using assms(3) by (simp add: flagser_def flagser_args_of_graph [OF g])
qed

theorem unrecognized_filtration_falls_back_to_max_witness:
  "wf_matrix (NdArray example_dense)
   \<and> square_or_sparse (NdArray example_dense)
   \<and> ''cubic'' \<notin> set [''max'', ''zero'']
   \<and> (\<exists>args. flagser_args Mask_of_same_length [''max'', ''zero''] (NdArray example_dense)
                  0 Infinity True ''cubic'' 2 (- 1)
                  = ([Unrecognized_filtration ''cubic'',
                      Available_algorithms [''max'', ''zero'']], Inr args)
           \<and> arg_filtration args = ''max''
           \<and> snd (flagser_args Mask_of_same_length [''max'', ''zero''] (NdArray example_dense)
                     0 Infinity True ''max'' 2 (- 1))
               = Inr args
           \<and> snd (flagser Mask_of_same_length failing_engine [''max'', ''zero'']
                     (NdArray example_dense) 0 Infinity True ''cubic'' 2 (- 1))
               = snd (flagser Mask_of_same_length failing_engine [''max'', ''zero'']
                     (NdArray example_dense) 0 Infinity True ''max'' 2 (- 1))
           \<and> snd (flagser Mask_of_same_length failing_engine [''max'', ''zero'']
                     (NdArray example_dense) 0 Infinity True ''cubic'' 2 (- 1))
               = bind_err (failing_engine args) make_out)"
proof -
  have h1: "wf_matrix (NdArray example_dense)"
    by (simp add: example_dense_def wf_ndarray_def)
  have h2: "square_or_sparse (NdArray example_dense)"
    by (simp add: example_dense_def)
  then have h2': "square_or_sparse (NdArray example_dense)
                    \<or> Mask_of_same_length = Mask_may_be_shorter" by simp
  have h3: "''cubic'' \<notin> set [''max'', ''zero'']" by simp
  from unrecognized_filtration_falls_back_to_max
         [OF h1 h2' h3, of 0 Infinity True 2 "- 1" failing_engine] h1 h2 h3
  show ?thesis by blast
qed

text \<open>
  C5, as stated, fails: a sparse matrix of shape \<open>1 \<times> 2\<close> raises nothing and reaches
  the engine call, with one vertex weight and the stored entry as an edge, whatever the
  numpy.
\<close>

theorem nonsquare_matrix_reaches_engine:
  "shape (SpMatrix example_nonsquare) = (1, 2)
   \<and> flagser_args Mask_of_same_length [''max''] (SpMatrix example_nonsquare) 0 Infinity True
        ''max'' 2 (- 1)
     = ([], Inr \<lparr>arg_vertices = [0], arg_edges = Triples [(0, 1, 5)],
                  arg_min_dimension = 0, arg_max_dimension = - 1, arg_directed = True,
                  arg_coeff = 2, arg_approximation = - 1, arg_filtration = ''max''\<rparr>)
   \<and> flagser_args Mask_may_be_shorter [''max''] (SpMatrix example_nonsquare) 0 Infinity True
        ''max'' 2 (- 1)
     = ([], Inr \<lparr>arg_vertices = [0], arg_edges = Triples [(0, 1, 5)],
                  arg_min_dimension = 0, arg_max_dimension = - 1, arg_directed = True,
                  arg_coeff = 2, arg_approximation = - 1, arg_filtration = ''max''\<rparr>)"
  by code_simp

text \<open>
  C5, amended. \<open>flagser\<close> has no check of the shape and no exception of its own. For
  every sparse matrix of shape \<open>r \<times> c\<close>, square or not, nothing is raised before the
  engine call, and the engine receives the main diagonal as vertex weights, \<open>min r c\<close>
  of them, and the stored entries off the diagonal as edges. Nothing is said here of an
  array that is not square.
\<close>

theorem sparse_matrix_of_any_shape_reaches_engine:
  assumes "wf_spmatrix s" and "sp_shape0 s = r" and "sp_shape1 s = c"
  shows "\<exists>args. snd (flagser_args np impl (SpMatrix s) mn mx d f cf ap) = Inr args
           \<and> arg_vertices args = sp_diagonal s
           \<and> length (arg_vertices args) = min r c
           \<and> arg_edges args =
               Triples (filter (\<lambda>(i, j, w). i \<noteq> j)
                          (zip (coo_row s) (zip (coo_col s) (coo_data s))))"
proof -
  have g: "extract_graph np (SpMatrix s) = Inr (sp_diagonal s, Triples (sparse_edge_list s))"
    using assms(1) by (rule extract_graph_sparse)
  have "length (sp_diagonal s) = min r c"
    using assms(2,3) by (simp add: sp_diagonal_def)
  then show ?thesis
    by (simp add: flagser_args_of_graph [OF g] sparse_edge_list_def)
qed

theorem sparse_matrix_of_any_shape_reaches_engine_witness:
  "wf_spmatrix example_nonsquare \<and> sp_shape0 example_nonsquare = 1
   \<and> sp_shape1 example_nonsquare = 2
   \<and> (\<exists>args. snd (flagser_args Mask_of_same_length [''max''] (SpMatrix example_nonsquare)
                     0 Infinity True ''max'' 2 (- 1)) = Inr args
           \<and> arg_vertices args = sp_diagonal example_nonsquare
           \<and> length (arg_vertices args) = min 1 2
           \<and> arg_edges args =
               Triples (filter (\<lambda>(i, j, w). i \<noteq> j)
                          (zip (coo_row example_nonsquare)
                             (zip (coo_col example_nonsquare) (coo_data example_nonsquare)))))"
proof -
  have h1: "wf_spmatrix example_nonsquare"
    and h2: "sp_shape0 example_nonsquare = 1" and h3: "sp_shape1 example_nonsquare = 2"
    by (simp_all add: example_nonsquare_def wf_spmatrix_def)
  from sparse_matrix_of_any_shape_reaches_engine
         [OF h1 h2 h3, of Mask_of_same_length "[''max'']" 0 Infinity True "''max''" 2 "- 1"]
       h1 h2 h3
  show ?thesis by blast
qed

text \<open>
  C6, as stated, fails: for \<open>max_dimension = -1\<close> the engine receives \<open>-1\<close>, the
  sentinel, although the argument is not \<open>np.inf\<close>.
\<close>

theorem max_dimension_minus_one_is_handed_unchanged:
  "map_sum id arg_max_dimension
     (snd (flagser_args Mask_of_same_length [''max''] (NdArray example_dense) 0 (Finite (- 1))
             True ''max'' 2 (- 1)))
     = Inr (- 1)
   \<and> map_sum id arg_max_dimension
     (snd (flagser_args Mask_may_be_shorter [''max''] (NdArray example_dense) 0 (Finite (- 1))
             True ''max'' 2 (- 1)))
     = Inr (- 1)
   \<and> Finite (- 1) \<noteq> Infinity"
  by code_simp

text \<open>
  C6, amended. The engine receives \<open>-1\<close> when \<open>max_dimension\<close> is \<open>np.inf\<close> and the
  argument unchanged otherwise; so it receives \<open>-1\<close> exactly when the argument is
  \<open>np.inf\<close> or is \<open>-1\<close> itself.
\<close>

theorem max_dimension_handed_to_engine:
  assumes "snd (flagser_args np impl M mn mx d f c ap) = Inr args"
  shows "arg_max_dimension args = (case mx of Infinity \<Rightarrow> - 1 | Finite k \<Rightarrow> k)
         \<and> (arg_max_dimension args = - 1 \<longleftrightarrow> mx = Infinity \<or> mx = Finite (- 1))"
  using assms
  by (auto simp: flagser_args_def Let_def split: sum.splits prod.splits max_dim.splits)

theorem max_dimension_handed_to_engine_witness:
  "snd (flagser_args Mask_of_same_length [''max''] (NdArray example_dense)
          0 Infinity True ''max'' 2 (- 1))
     = Inr \<lparr>arg_vertices = [7, 9], arg_edges = Triples [(0, 1, 1), (1, 0, 0)],
            arg_min_dimension = 0, arg_max_dimension = - 1, arg_directed = True,
            arg_coeff = 2, arg_approximation = - 1, arg_filtration = ''max''\<rparr>
   \<and> arg_max_dimension \<lparr>arg_vertices = [7, 9 :: int], arg_edges = Triples [(0, 1, 1), (1, 0, 0)],
            arg_min_dimension = 0, arg_max_dimension = - 1, arg_directed = True,
            arg_coeff = 2, arg_approximation = - 1, arg_filtration = ''max''\<rparr>
       = (case Infinity of Infinity \<Rightarrow> - 1 | Finite k \<Rightarrow> k)"
proof -
  have h: "snd (flagser_args Mask_of_same_length [''max''] (NdArray example_dense)
          0 Infinity True ''max'' 2 (- 1))
     = Inr \<lparr>arg_vertices = [7, 9], arg_edges = Triples [(0, 1, 1), (1, 0, 0)],
            arg_min_dimension = 0, arg_max_dimension = - 1, arg_directed = True,
            arg_coeff = 2, arg_approximation = - 1, arg_filtration = ''max''\<rparr>"
    by code_simp
  from max_dimension_handed_to_engine [OF h] h show ?thesis by blast
qed

text \<open>
  C7. A call with \<open>approximation = 0\<close> reaches the engine with \<open>approximation = -1\<close>
  and is the call with \<open>approximation = -1\<close>: same arguments of the engine, same
  printed lines, same result.
\<close>

theorem approximation_zero_is_exact:
  assumes "wf_matrix M" and "square_or_sparse M \<or> np = Mask_may_be_shorter"
  shows "\<exists>args. snd (flagser_args np impl M mn mx d f c 0) = Inr args
           \<and> arg_approximation args = - 1
           \<and> flagser_args np impl M mn mx d f c (- 1) = flagser_args np impl M mn mx d f c 0
           \<and> snd (flagser np compute_homology impl M mn mx d f c 0)
               = bind_err (compute_homology args) make_out
           \<and> flagser np compute_homology impl M mn mx d f c (- 1)
               = flagser np compute_homology impl M mn mx d f c 0"
proof -
  obtain v e where g: "extract_graph np M = Inr (v, e)"
    using extract_graph_total [OF assms] by blast
  show ?thesis
    by (simp add: flagser_def flagser_args_of_graph [OF g])
qed

theorem approximation_zero_is_exact_witness:
  "wf_matrix (SpMatrix example_sparse) \<and> square_or_sparse (SpMatrix example_sparse)
   \<and> (\<exists>args. snd (flagser_args Mask_of_same_length [''max''] (SpMatrix example_sparse)
                     0 Infinity True ''max'' 2 0) = Inr args
           \<and> arg_approximation args = - 1
           \<and> flagser_args Mask_of_same_length [''max''] (SpMatrix example_sparse)
                0 Infinity True ''max'' 2 (- 1)
               = flagser_args Mask_of_same_length [''max''] (SpMatrix example_sparse)
                   0 Infinity True ''max'' 2 0
           \<and> snd (flagser Mask_of_same_length failing_engine [''max''] (SpMatrix example_sparse)
                     0 Infinity True ''max'' 2 0)
               = bind_err (failing_engine args) make_out
           \<and> flagser Mask_of_same_length failing_engine [''max''] (SpMatrix example_sparse)
                0 Infinity True ''max'' 2 (- 1)
               = flagser Mask_of_same_length failing_engine [''max''] (SpMatrix example_sparse)
                   0 Infinity True ''max'' 2 0)"
proof -
  have h1: "wf_matrix (SpMatrix example_sparse)"
    by (simp add: example_sparse_def wf_spmatrix_def)
  have h2: "square_or_sparse (SpMatrix example_sparse)" by simp
  then have h2': "square_or_sparse (SpMatrix example_sparse)
                    \<or> Mask_of_same_length = Mask_may_be_shorter" by simp
  from approximation_zero_is_exact
         [OF h1 h2', of "[''max'']" 0 Infinity True "''max''" 2 failing_engine] h1 h2
  show ?thesis by blast
qed



text \<open>
  C10. \<open>flagser\<close> does not change its input. Whatever the engine does to the two arrays
  it is handed, every array that existed before the call holds afterwards what it held
  before, so the caller's matrix is the same matrix; the only write of \<open>flagser\<close>
  itself goes to the mask it has just created. The call returns and prints what the
  function of the earlier sections does.
\<close>

theorem flagser_leaves_flag_matrix_unchanged:
  assumes "flagser_store np compute_homology impl h m mn mx d f c ap = (h', printed, res)"
    and "ref_in_store h m"
  shows "take (length h) h' = h \<and> deref h' m = deref h m
         \<and> (printed, res) = flagser np (\<lambda>args. snd (compute_homology args)) impl (deref h m)
                                mn mx d f c ap"
proof -
  have t: "take (length h) h' = h"
    using assms(1) by (rule flagser_store_frame)
  moreover have "deref h' m = deref h m"
    using t assms(2) by (rule frame_deref)
  moreover have "(printed, res) = flagser np (\<lambda>args. snd (compute_homology args)) impl (deref h m)
                                mn mx d f c ap"
    using flagser_store_result [OF assms(2), of np compute_homology impl mn mx d f c ap] assms(1)
    by simp
  ultimately show ?thesis by simp
qed

theorem flagser_leaves_flag_matrix_unchanged_witness:
  "flagser_store Mask_of_same_length overwriting_engine [''max''] example_store example_ref
          0 Infinity True ''max'' 2 (- 1)
     = (example_store @ [Val_array [0, 0], Mask_array [False, True, True], Edge_array (Triples [])],
        [], Inl EngineError)
   \<and> ref_in_store example_store example_ref
   \<and> take (length example_store)
        (example_store @ [Val_array [0, 0], Mask_array [False, True, True], Edge_array (Triples [])])
       = example_store
   \<and> deref (example_store @ [Val_array [0, 0], Mask_array [False, True, True],
                              Edge_array (Triples [])]) example_ref
       = deref example_store example_ref"
proof -
  have run: "flagser_store Mask_of_same_length overwriting_engine [''max''] example_store example_ref
          0 Infinity True
               ''max'' 2 (- 1)
     = (example_store @ [Val_array [0, 0], Mask_array [False, True, True], Edge_array (Triples [])],
        [], Inl EngineError)"
    by code_simp
  have ok: "ref_in_store example_store example_ref"
    by code_simp
  from flagser_leaves_flag_matrix_unchanged [OF run ok] run ok show ?thesis by blast
qed

end
